theory Spec2Isabelle
  imports Complex_Main "HOL-Library.Multiset" "HOL-Library.AList"
begin

section \<open>Data model\<close>

text \<open>
  The Lead entity of the record store, with the two enumerations the validation
  schemas declare (\<^verbatim>\<open>LeadStageEnum\<close>, \<^verbatim>\<open>LeadStatusEnum\<close>). The fields \<^verbatim>\<open>id\<close>,
  \<^verbatim>\<open>value\<close> and \<^verbatim>\<open>notes\<close> carry the prefix \<open>lead_\<close> because the bare names are
  taken in Isabelle. Strings are lists of 8-bit characters; timestamps are
  milliseconds since the epoch; the monetary \<^verbatim>\<open>value\<close> (a Float in the store) is an
  exact rational, so IEEE rounding is not part of this model.
\<close>

datatype LeadStage =
  NEW | CONTACTED | QUALIFIED | PROPOSAL | NEGOTIATION | CLOSED_WON | CLOSED_LOST

datatype LeadStatus = ACTIVE | INACTIVE | CONVERTED | REJECTED

fun LeadStage_name :: "LeadStage \<Rightarrow> string" where
  "LeadStage_name NEW = ''NEW''"
| "LeadStage_name CONTACTED = ''CONTACTED''"
| "LeadStage_name QUALIFIED = ''QUALIFIED''"
| "LeadStage_name PROPOSAL = ''PROPOSAL''"
| "LeadStage_name NEGOTIATION = ''NEGOTIATION''"
| "LeadStage_name CLOSED_WON = ''CLOSED_WON''"
| "LeadStage_name CLOSED_LOST = ''CLOSED_LOST''"

fun LeadStatus_name :: "LeadStatus \<Rightarrow> string" where
  "LeadStatus_name ACTIVE = ''ACTIVE''"
| "LeadStatus_name INACTIVE = ''INACTIVE''"
| "LeadStatus_name CONVERTED = ''CONVERTED''"
| "LeadStatus_name REJECTED = ''REJECTED''"

record Lead =
  lead_id :: string
  firstName :: string
  lastName :: string
  email :: string
  phone :: string
  company :: string
  position :: string
  stage :: LeadStage
  status :: LeadStatus
  source :: string
  lead_value :: rat
  lead_notes :: "string option"
  assignedTo :: "string option"
  country :: string
  city :: string
  createdAt :: int
  updatedAt :: int

text \<open>
  The database behind the Prisma client. The list order of \<open>leads\<close> is the store's
  own (natural) order of the documents: the API neither fixes nor exposes it.
\<close>

record database =
  leads :: "Lead list"

section \<open>JavaScript values\<close>

text \<open>
  A JavaScript number is NaN, an infinity, or a finite value. Finite values are kept
  exact (rationals): the model does not round to IEEE doubles, which agrees with
  JavaScript wherever the exact value is a double, in particular on every integer
  below \<open>2^53\<close>.
\<close>

datatype jsnum = NaN | Infinity bool | Finite rat

text \<open>\<^verbatim>\<open>a / b\<close> on two non-negative integers, and \<^verbatim>\<open>Math.ceil\<close>.\<close>

definition js_div :: "nat \<Rightarrow> nat \<Rightarrow> jsnum" where
  "js_div a b =
     (if b = 0 then (if a = 0 then NaN else Infinity True)
      else Finite (of_nat a / of_nat b))"

fun Math_ceil :: "jsnum \<Rightarrow> jsnum" where
  "Math_ceil NaN = NaN"
| "Math_ceil (Infinity p) = Infinity p"
| "Math_ceil (Finite r) = Finite (of_int \<lceil>r\<rceil>)"

text \<open>Truthiness of an optional string, as \<^verbatim>\<open>if (search)\<close> tests it:
  \<^verbatim>\<open>undefined\<close> and the empty string are falsy.\<close>

fun truthy :: "string option \<Rightarrow> bool" where
  "truthy None = False"
| "truthy (Some s) = (s \<noteq> [])"

section \<open>The Prisma client, as far as the lead controller calls it\<close>

subsection \<open>Scalar fields\<close>

datatype LeadScalarFieldEnum =
  F_id | F_firstName | F_lastName | F_email | F_phone | F_company | F_position
| F_stage | F_status | F_source | F_value | F_notes | F_assignedTo | F_country
| F_city | F_createdAt | F_updatedAt

datatype scalar = SNull | SNumber rat | SString string | SDateTime int

fun opt_string :: "string option \<Rightarrow> scalar" where
  "opt_string None = SNull"
| "opt_string (Some s) = SString s"

fun field_value :: "LeadScalarFieldEnum \<Rightarrow> Lead \<Rightarrow> scalar" where
  "field_value F_id l = SString (lead_id l)"
| "field_value F_firstName l = SString (firstName l)"
| "field_value F_lastName l = SString (lastName l)"
| "field_value F_email l = SString (email l)"
| "field_value F_phone l = SString (phone l)"
| "field_value F_company l = SString (company l)"
| "field_value F_position l = SString (position l)"
| "field_value F_stage l = SString (LeadStage_name (stage l))"
| "field_value F_status l = SString (LeadStatus_name (status l))"
| "field_value F_source l = SString (source l)"
| "field_value F_value l = SNumber (lead_value l)"
| "field_value F_notes l = opt_string (lead_notes l)"
| "field_value F_assignedTo l = opt_string (assignedTo l)"
| "field_value F_country l = SString (country l)"
| "field_value F_city l = SString (city l)"
| "field_value F_createdAt l = SDateTime (createdAt l)"
| "field_value F_updatedAt l = SDateTime (updatedAt l)"

text \<open>The field a name denotes; an unknown name denotes none, and the client
  rejects a query that uses it.\<close>

definition field_of_name :: "string \<Rightarrow> LeadScalarFieldEnum option" where
  "field_of_name = map_of
     [(''id'', F_id), (''firstName'', F_firstName), (''lastName'', F_lastName),
      (''email'', F_email), (''phone'', F_phone), (''company'', F_company),
      (''position'', F_position), (''stage'', F_stage), (''status'', F_status),
      (''source'', F_source), (''value'', F_value), (''notes'', F_notes),
      (''assignedTo'', F_assignedTo), (''country'', F_country), (''city'', F_city),
      (''createdAt'', F_createdAt), (''updatedAt'', F_updatedAt)]"

subsection \<open>Filters\<close>

text \<open>Case folding of the ASCII letters, and the substring test.\<close>

definition lower :: "char \<Rightarrow> char" where
  "lower c =
     (case map_of (zip ''ABCDEFGHIJKLMNOPQRSTUVWXYZ'' ''abcdefghijklmnopqrstuvwxyz'') c of
        None \<Rightarrow> c
      | Some d \<Rightarrow> d)"

fun starts_with :: "string \<Rightarrow> string \<Rightarrow> bool" where
  "starts_with s [] = True"
| "starts_with [] (p # ps) = False"
| "starts_with (c # cs) (p # ps) = (c = p \<and> starts_with cs ps)"

fun has_substring :: "string \<Rightarrow> string \<Rightarrow> bool" where
  "has_substring [] sub = (sub = [])"
| "has_substring (c # cs) sub = (starts_with (c # cs) sub \<or> has_substring cs sub)"

datatype QueryMode = default_mode | insensitive

text \<open>\<^verbatim>\<open>{ contains: s, mode: m }\<close>\<close>

datatype StringFilter = contains string QueryMode

fun StringFilter_holds :: "StringFilter \<Rightarrow> scalar \<Rightarrow> bool" where
  "StringFilter_holds (contains sub default_mode) (SString s) = has_substring s sub"
| "StringFilter_holds (contains sub insensitive) (SString s) =
     has_substring (map lower s) (map lower sub)"
| "StringFilter_holds (contains sub m) v = False"

text \<open>The \<^verbatim>\<open>where\<close> object of the list query: the keys the controller may set.
  An absent key constrains nothing; \<^verbatim>\<open>OR\<close> holds when one of its entries does; the
  keys present are joined by conjunction.\<close>

record LeadWhereInput =
  where_OR :: "(LeadScalarFieldEnum \<times> StringFilter) list option"
  where_stage :: "LeadStage option"
  where_status :: "LeadStatus option"
  where_source :: "string option"
  where_country :: "string option"

definition where_empty :: LeadWhereInput where
  "where_empty =
     \<lparr>where_OR = None, where_stage = None, where_status = None,
      where_source = None, where_country = None\<rparr>"

fun equals_opt :: "'a option \<Rightarrow> 'a \<Rightarrow> bool" where
  "equals_opt None v = True"
| "equals_opt (Some w) v = (v = w)"

fun OR_holds :: "(LeadScalarFieldEnum \<times> StringFilter) list option \<Rightarrow> Lead \<Rightarrow> bool" where
  "OR_holds None l = True"
| "OR_holds (Some cs) l = list_ex (\<lambda>c. StringFilter_holds (snd c) (field_value (fst c) l)) cs"

definition where_holds :: "LeadWhereInput \<Rightarrow> Lead \<Rightarrow> bool" where
  "where_holds w l \<longleftrightarrow>
     OR_holds (where_OR w) l \<and>
     equals_opt (where_stage w) (stage l) \<and>
     equals_opt (where_status w) (status l) \<and>
     equals_opt (where_source w) (source l) \<and>
     equals_opt (where_country w) (country l)"

subsection \<open>Ordering\<close>

text \<open>
  Values of one field are compared as the store compares them: null first, numbers
  by value, strings by their code units, dates by time. Sorting is by insertion, so
  records with equal keys keep the store's own order: the query names no second key.
\<close>

fun string_le :: "string \<Rightarrow> string \<Rightarrow> bool" where
  "string_le [] t = True"
| "string_le (c # cs) [] = False"
| "string_le (c # cs) (d # ds) =
     ((of_char c :: nat) < of_char d \<or> (c = d \<and> string_le cs ds))"

fun scalar_rank :: "scalar \<Rightarrow> nat" where
  "scalar_rank SNull = 0"
| "scalar_rank (SNumber r) = 1"
| "scalar_rank (SString s) = 2"
| "scalar_rank (SDateTime t) = 3"

fun scalar_le :: "scalar \<Rightarrow> scalar \<Rightarrow> bool" where
  "scalar_le (SNumber a) (SNumber b) = (a \<le> b)"
| "scalar_le (SString a) (SString b) = string_le a b"
| "scalar_le (SDateTime a) (SDateTime b) = (a \<le> b)"
| "scalar_le a b = (scalar_rank a \<le> scalar_rank b)"

datatype SortOrder = asc | desc

fun insort_by :: "('a \<Rightarrow> 'a \<Rightarrow> bool) \<Rightarrow> 'a \<Rightarrow> 'a list \<Rightarrow> 'a list" where
  "insort_by le x [] = [x]"
| "insort_by le x (y # ys) = (if le x y then x # y # ys else y # insort_by le x ys)"

definition sort_by :: "('a \<Rightarrow> 'a \<Rightarrow> bool) \<Rightarrow> 'a list \<Rightarrow> 'a list" where
  "sort_by le xs = foldr (insort_by le) xs []"

fun order_le :: "LeadScalarFieldEnum \<Rightarrow> SortOrder \<Rightarrow> Lead \<Rightarrow> Lead \<Rightarrow> bool" where
  "order_le f asc a b = scalar_le (field_value f a) (field_value f b)"
| "order_le f desc a b = scalar_le (field_value f b) (field_value f a)"

subsection \<open>Queries\<close>

text \<open>
  A call of the client is a function of the database that returns its result, or the
  error it throws, together with the database it leaves. \<open>await\<close> sequences two calls
  inside one \<^verbatim>\<open>try\<close> block: an error skips what follows. The store is taken to be
  reachable: the errors are those the client raises for a query it refuses.
\<close>

datatype prisma_error = PrismaClientValidationError | PrismaClientKnownRequestError

type_synonym 'a query = "database \<Rightarrow> (prisma_error + 'a) \<times> database"

definition resolve :: "'a \<Rightarrow> 'a query" where
  "resolve x db = (Inr x, db)"

definition reject :: "prisma_error \<Rightarrow> 'a query" where
  "reject e db = (Inl e, db)"

definition await :: "'a query \<Rightarrow> ('a \<Rightarrow> 'b query) \<Rightarrow> 'b query" where
  "await m f db =
     (case m db of
        (Inl e, db') \<Rightarrow> (Inl e, db')
      | (Inr x, db') \<Rightarrow> f x db')"

text \<open>The records a \<^verbatim>\<open>where\<close> object selects, in the store's order.\<close>

definition matching :: "LeadWhereInput \<Rightarrow> database \<Rightarrow> Lead list" where
  "matching w db = filter (where_holds w) (leads db)"

text \<open>\<^verbatim>\<open>prisma.lead.count({ where })\<close>; without an argument, \<open>where_empty\<close>.\<close>

definition lead_count :: "LeadWhereInput \<Rightarrow> nat query" where
  "lead_count w db = resolve (length (matching w db)) db"

text \<open>\<^verbatim>\<open>prisma.lead.findMany({ where, skip, take, orderBy: { [sortBy]: sortOrder } })\<close>\<close>

record LeadFindManyArgs =
  fm_where :: LeadWhereInput
  fm_skip :: nat
  fm_take :: nat
  fm_orderBy :: "string \<times> SortOrder"

definition ordered :: "LeadScalarFieldEnum \<Rightarrow> SortOrder \<Rightarrow> LeadWhereInput \<Rightarrow> database \<Rightarrow> Lead list" where
  "ordered f dir w db = sort_by (order_le f dir) (matching w db)"

definition lead_findMany :: "LeadFindManyArgs \<Rightarrow> Lead list query" where
  "lead_findMany a db =
     (case field_of_name (fst (fm_orderBy a)) of
        None \<Rightarrow> reject PrismaClientValidationError db
      | Some f \<Rightarrow>
          resolve (take (fm_take a) (drop (fm_skip a)
                     (ordered f (snd (fm_orderBy a)) (fm_where a) db))) db)"

text \<open>
  \<^verbatim>\<open>prisma.lead.findUnique({ where: { id } })\<close>. The identifier is an ObjectId written
  as 24 hexadecimal digits; the store compares identifiers as ObjectId values, so
  the case of the digits does not matter, and the client throws on a string that is
  no ObjectId.
\<close>

definition is_digit :: "char \<Rightarrow> bool" where
  "is_digit c \<longleftrightarrow> c \<in> set ''0123456789''"

definition is_hex_digit :: "char \<Rightarrow> bool" where
  "is_hex_digit c \<longleftrightarrow> is_digit c \<or> lower c \<in> set ''abcdef''"

definition ObjectId :: "string \<Rightarrow> string" where
  "ObjectId s = map lower s"

definition is_ObjectId :: "string \<Rightarrow> bool" where
  "is_ObjectId s \<longleftrightarrow> length s = 24 \<and> list_all is_hex_digit s"

definition lead_findUnique :: "string \<Rightarrow> Lead option query" where
  "lead_findUnique ident db =
     (if is_ObjectId ident
      then resolve (find (\<lambda>l. ObjectId (lead_id l) = ObjectId ident) (leads db)) db
      else reject PrismaClientKnownRequestError db)"

text \<open>\<^verbatim>\<open>prisma.lead.deleteMany()\<close>, which the seed script calls and no handler
  does: it removes every lead and returns how many there were.\<close>

definition lead_deleteMany :: "nat query" where
  "lead_deleteMany db = resolve (length (leads db)) (db\<lparr>leads := []\<rparr>)"

text \<open>
  \<^verbatim>\<open>prisma.lead.aggregate({ _sum: { value: true }, _avg: { value: true } })\<close>: over no
  record both results are null.
\<close>

record ValueAggregation =
  agg_sum :: "rat option"
  agg_avg :: "rat option"

definition lead_aggregate_value :: "ValueAggregation query" where
  "lead_aggregate_value db =
     resolve
       (if leads db = [] then \<lparr>agg_sum = None, agg_avg = None\<rparr>
        else \<lparr>agg_sum = Some (sum_list (map lead_value (leads db))),
              agg_avg = Some (sum_list (map lead_value (leads db))
                              / of_nat (length (leads db)))\<rparr>) db"

text \<open>
  \<^verbatim>\<open>prisma.lead.groupBy({ by: [key], _count: true })\<close>: one item per value of the key
  that occurs, with the number of records that carry it. With
  \<^verbatim>\<open>orderBy: { _count: { key: 'desc' } }, take: n\<close> the items are sorted by falling
  count and cut to the first \<open>n\<close>; items of equal count stay in the store's order.
\<close>

definition groups :: "(Lead \<Rightarrow> 'k) \<Rightarrow> Lead list \<Rightarrow> ('k \<times> nat) list" where
  "groups key ls =
     map (\<lambda>k. (k, length (filter (\<lambda>l. key l = k) ls))) (remdups (map key ls))"

definition lead_groupBy :: "(Lead \<Rightarrow> 'k) \<Rightarrow> ('k \<times> nat) list query" where
  "lead_groupBy key db = resolve (groups key (leads db)) db"

definition lead_groupBy_top :: "(Lead \<Rightarrow> 'k) \<Rightarrow> nat \<Rightarrow> ('k \<times> nat) list query" where
  "lead_groupBy_top key n db =
     resolve (take n (sort_by (\<lambda>a b. snd b \<le> snd a) (groups key (leads db)))) db"

section \<open>The lead controller\<close>

text \<open>
  A handler answers with \<^verbatim>\<open>res.json(body)\<close> (status 200, \<open>Inr body\<close>) or with
  \<^verbatim>\<open>res.status(n).json({ error: msg })\<close> (\<open>Inl (HttpError n msg)\<close>). Its body runs
  inside \<^verbatim>\<open>try\<close>; whatever the client throws is answered with status 500.
\<close>

datatype http_error = HttpError nat string

type_synonym 'a handler = "database \<Rightarrow> (http_error + 'a) \<times> database"

definition res_json :: "'a \<Rightarrow> (http_error + 'a) query" where
  "res_json body = resolve (Inr body)"

definition res_status_json :: "nat \<Rightarrow> string \<Rightarrow> (http_error + 'a) query" where
  "res_status_json n msg = resolve (Inl (HttpError n msg))"

definition try_catch :: "(http_error + 'a) query \<Rightarrow> 'a handler" where
  "try_catch body db =
     (case body db of
        (Inl e, db') \<Rightarrow> (Inl (HttpError 500 ''Internal server error''), db')
      | (Inr r, db') \<Rightarrow> (r, db'))"

subsection \<open>getLeads\<close>

text \<open>
  The validated query. The handler casts the request's query to the schema's output
  type: it relies on the validation middleware to have put the parsed query in the
  place of the raw one. \<open>q_page\<close> and \<open>q_limit\<close> are the positive integers the schema
  lets through, so they are natural numbers here, and \<open>q_page q - 1\<close> is the
  JavaScript subtraction wherever \<open>1 \<le> q_page q\<close>. The offset is computed exactly;
  JavaScript computes it in doubles, which is the same below \<open>2^53\<close>.
\<close>

record LeadQueryInput =
  q_search :: "string option"
  q_stage :: "LeadStage option"
  q_status :: "LeadStatus option"
  q_source :: "string option"
  q_country :: "string option"
  q_sortBy :: string
  q_sortOrder :: SortOrder
  q_page :: nat
  q_limit :: nat

record Pagination =
  pg_total :: nat
  pg_page :: nat
  pg_limit :: nat
  pg_totalPages :: jsnum

record PaginatedResponse =
  data :: "Lead list"
  pagination :: Pagination

definition search_conditions :: "string \<Rightarrow> (LeadScalarFieldEnum \<times> StringFilter) list" where
  "search_conditions s =
     [(F_firstName, contains s insensitive),
      (F_lastName, contains s insensitive),
      (F_email, contains s insensitive),
      (F_company, contains s insensitive),
      (F_phone, contains s insensitive)]"

text \<open>The filter conditions \<^verbatim>\<open>getLeads\<close> builds from the query: each key is set
  only under its \<^verbatim>\<open>if\<close>.\<close>

definition getLeads_where :: "LeadQueryInput \<Rightarrow> LeadWhereInput" where
  "getLeads_where q =
     \<lparr>where_OR =
        (if truthy (q_search q) then map_option search_conditions (q_search q) else None),
      where_stage =
        (if truthy (map_option LeadStage_name (q_stage q)) then q_stage q else None),
      where_status =
        (if truthy (map_option LeadStatus_name (q_status q)) then q_status q else None),
      where_source = (if truthy (q_source q) then q_source q else None),
      where_country = (if truthy (q_country q) then q_country q else None)\<rparr>"

definition getLeads :: "LeadQueryInput \<Rightarrow> PaginatedResponse handler" where
  "getLeads q =
     try_catch
       (let skip = (q_page q - 1) * q_limit q;
            w = getLeads_where q
        in await (lead_count w) (\<lambda>total.
           await (lead_findMany
                    \<lparr>fm_where = w, fm_skip = skip, fm_take = q_limit q,
                     fm_orderBy = (q_sortBy q, q_sortOrder q)\<rparr>) (\<lambda>found.
           res_json
             \<lparr>data = found,
              pagination =
                \<lparr>pg_total = total, pg_page = q_page q, pg_limit = q_limit q,
                 pg_totalPages = Math_ceil (js_div total (q_limit q))\<rparr>\<rparr>)))"

subsection \<open>getLeadById\<close>

definition getLeadById :: "string \<Rightarrow> Lead handler" where
  "getLeadById ident =
     try_catch
       (await (lead_findUnique ident) (\<lambda>found.
          case found of
            None \<Rightarrow> res_status_json 404 ''Lead not found''
          | Some l \<Rightarrow> res_json l))"

subsection \<open>getAnalytics\<close>

record SourceCount =
  sc_source :: string
  sc_count :: nat

record AnalyticsData =
  totalLeads :: nat
  convertedLeads :: nat
  activeLeads :: nat
  totalValue :: rat
  averageValue :: rat
  leadsByStage :: "(LeadStage \<times> nat) list"
  leadsByStatus :: "(LeadStatus \<times> nat) list"
  leadsBySource :: "SourceCount list"

text \<open>\<^verbatim>\<open>x || 0\<close> on a number or null: null and zero are falsy.\<close>

fun or_zero :: "rat option \<Rightarrow> rat" where
  "or_zero None = 0"
| "or_zero (Some v) = (if v = 0 then 0 else v)"

text \<open>\<^verbatim>\<open>raw.reduce((acc, item) => { acc[item.key] = item._count; return acc }, {})\<close>:
  the object is a list of its properties in the order they were first assigned.\<close>

definition collect :: "('k \<times> nat) list \<Rightarrow> ('k \<times> nat) list" where
  "collect raw = fold (\<lambda>item acc. AList.update (fst item) (snd item) acc) raw []"

definition getAnalytics :: "AnalyticsData handler" where
  "getAnalytics =
     try_catch
       (await (lead_count where_empty) (\<lambda>total.
        await (lead_count (where_empty\<lparr>where_status := Some CONVERTED\<rparr>)) (\<lambda>converted.
        await (lead_count (where_empty\<lparr>where_status := Some ACTIVE\<rparr>)) (\<lambda>active.
        await lead_aggregate_value (\<lambda>valueAggregation.
        await (lead_groupBy stage) (\<lambda>leadsByStageRaw.
        await (lead_groupBy status) (\<lambda>leadsByStatusRaw.
        await (lead_groupBy_top source 10) (\<lambda>leadsBySourceRaw.
        res_json
          \<lparr>totalLeads = total,
           convertedLeads = converted,
           activeLeads = active,
           totalValue = or_zero (agg_sum valueAggregation),
           averageValue = or_zero (agg_avg valueAggregation),
           leadsByStage = collect leadsByStageRaw,
           leadsByStatus = collect leadsByStatusRaw,
           leadsBySource =
             map (\<lambda>item. \<lparr>sc_source = fst item, sc_count = snd item\<rparr>)
               leadsBySourceRaw\<rparr>))))))))"

section \<open>The validation schemas\<close>

subsection \<open>String to number\<close>

text \<open>
  \<^verbatim>\<open>Number(s)\<close> on a string: white space is trimmed; the empty string is 0; a signed
  decimal literal with an optional fraction and exponent, \<^verbatim>\<open>Infinity\<close>, or an
  unsigned hexadecimal, octal or binary literal gives its value; anything else is
  NaN. Strings are read as code units below 256, so the white space characters are
  tab, line feed, vertical tab, form feed, carriage return, space and no-break space.
\<close>

definition is_space :: "char \<Rightarrow> bool" where
  "is_space c \<longleftrightarrow> (of_char c :: nat) \<in> {9, 10, 11, 12, 13, 32, 160}"

definition trim :: "string \<Rightarrow> string" where
  "trim s = rev (dropWhile is_space (rev (dropWhile is_space s)))"

definition digit_value :: "char \<Rightarrow> nat" where
  "digit_value c =
     (if is_digit c then of_char c - 48 else of_char (lower c) - 87)"

definition digits_value :: "nat \<Rightarrow> string \<Rightarrow> nat" where
  "digits_value base ds = foldl (\<lambda>n c. n * base + digit_value c) 0 ds"

definition is_digit_below :: "nat \<Rightarrow> char \<Rightarrow> bool" where
  "is_digit_below base c \<longleftrightarrow> is_hex_digit c \<and> digit_value c < base"

definition decimal_digits :: "string \<Rightarrow> nat option" where
  "decimal_digits ds =
     (if ds \<noteq> [] \<and> list_all is_digit ds then Some (digits_value 10 ds) else None)"

fun signed_integer :: "string \<Rightarrow> int option" where
  "signed_integer (c # cs) =
     (if c = CHR ''+'' then map_option int (decimal_digits cs)
      else if c = CHR ''-'' then map_option (\<lambda>n. - int n) (decimal_digits cs)
      else map_option int (decimal_digits (c # cs)))"
| "signed_integer [] = None"

fun exponent_part :: "string \<Rightarrow> int option" where
  "exponent_part [] = Some 0"
| "exponent_part (c # cs) =
     (if c = CHR ''e'' \<or> c = CHR ''E'' then signed_integer cs else None)"

definition pow10 :: "int \<Rightarrow> rat" where
  "pow10 e = (if 0 \<le> e then 10 ^ nat e else 1 / 10 ^ nat (- e))"

fun fraction_part :: "string \<Rightarrow> string \<times> string" where
  "fraction_part (c # cs) =
     (if c = CHR ''.'' then (takeWhile is_digit cs, dropWhile is_digit cs)
      else ([], c # cs))"
| "fraction_part [] = ([], [])"

definition unsigned_decimal :: "string \<Rightarrow> rat option" where
  "unsigned_decimal s =
     (let ip = takeWhile is_digit s;
          (fp, rest) = fraction_part (dropWhile is_digit s)
      in if ip = [] \<and> fp = [] then None
         else map_option
                (\<lambda>e. (of_nat (digits_value 10 ip)
                        + of_nat (digits_value 10 fp) / 10 ^ length fp) * pow10 e)
                (exponent_part rest))"

definition unsigned_literal :: "string \<Rightarrow> jsnum" where
  "unsigned_literal s =
     (if s = ''Infinity'' then Infinity True
      else case unsigned_decimal s of None \<Rightarrow> NaN | Some r \<Rightarrow> Finite r)"

fun negate :: "jsnum \<Rightarrow> jsnum" where
  "negate NaN = NaN"
| "negate (Infinity p) = Infinity (\<not> p)"
| "negate (Finite r) = Finite (- r)"

definition radix_literal :: "nat \<Rightarrow> string \<Rightarrow> jsnum" where
  "radix_literal base ds =
     (if ds \<noteq> [] \<and> list_all (is_digit_below base) ds
      then Finite (of_nat (digits_value base ds)) else NaN)"

fun numeric_literal :: "string \<Rightarrow> jsnum" where
  "numeric_literal [] = Finite 0"
| "numeric_literal [c] = unsigned_literal [c]"
| "numeric_literal (c # d # cs) =
     (if c = CHR ''0'' \<and> lower d = CHR ''x'' then radix_literal 16 cs
      else if c = CHR ''0'' \<and> lower d = CHR ''o'' then radix_literal 8 cs
      else if c = CHR ''0'' \<and> lower d = CHR ''b'' then radix_literal 2 cs
      else if c = CHR ''+'' then unsigned_literal (d # cs)
      else if c = CHR ''-'' then negate (unsigned_literal (d # cs))
      else unsigned_literal (c # d # cs))"

definition Number :: "string \<Rightarrow> jsnum" where
  "Number s = numeric_literal (trim s)"

subsection \<open>Zod\<close>

text \<open>
  A schema maps its input to the parsed value or to the issues it raises, each with
  its code and the key it is about. An object schema parses every key and raises
  the issues of all of them.
\<close>

datatype ZodIssueCode = invalid_type | invalid_enum_value | invalid_string | too_small | too_big

datatype ZodIssue = ZodIssue ZodIssueCode string

type_synonym 'a parsed = "ZodIssue list + 'a"

text \<open>A value of the parsed query string: a string, or an array or object (what
  a repeated or bracketed key gives).\<close>

datatype query_value = QString string | QNested

fun z_string :: "string \<Rightarrow> query_value \<Rightarrow> string parsed" where
  "z_string key (QString s) = Inr s"
| "z_string key QNested = Inl [ZodIssue invalid_type key]"

fun z_optional :: "('i \<Rightarrow> 'a parsed) \<Rightarrow> 'i option \<Rightarrow> 'a option parsed" where
  "z_optional schema None = Inr None"
| "z_optional schema (Some v) = map_sum id Some (schema v)"

text \<open>\<^verbatim>\<open>.default(d)\<close>: a missing input is replaced by \<open>d\<close>, which the inner schema
  then parses like any input; \<^verbatim>\<open>.optional()\<close> below it never sees a missing input.\<close>

fun z_optional_default :: "('i \<Rightarrow> 'a parsed) \<Rightarrow> 'i \<Rightarrow> 'i option \<Rightarrow> 'a parsed" where
  "z_optional_default schema d None = schema d"
| "z_optional_default schema d (Some v) = schema v"

definition z_enum :: "(string \<Rightarrow> 'a option) \<Rightarrow> string \<Rightarrow> query_value \<Rightarrow> 'a parsed" where
  "z_enum of_name key v =
     (case v of
        QNested \<Rightarrow> Inl [ZodIssue invalid_type key]
      | QString s \<Rightarrow>
          (case of_name s of
             None \<Rightarrow> Inl [ZodIssue invalid_enum_value key]
           | Some e \<Rightarrow> Inr e))"

definition LeadStageEnum :: "string \<Rightarrow> LeadStage option" where
  "LeadStageEnum = map_of
     [(''NEW'', NEW), (''CONTACTED'', CONTACTED), (''QUALIFIED'', QUALIFIED),
      (''PROPOSAL'', PROPOSAL), (''NEGOTIATION'', NEGOTIATION),
      (''CLOSED_WON'', CLOSED_WON), (''CLOSED_LOST'', CLOSED_LOST)]"

definition LeadStatusEnum :: "string \<Rightarrow> LeadStatus option" where
  "LeadStatusEnum = map_of
     [(''ACTIVE'', ACTIVE), (''INACTIVE'', INACTIVE), (''CONVERTED'', CONVERTED),
      (''REJECTED'', REJECTED)]"

definition SortOrderEnum :: "string \<Rightarrow> SortOrder option" where
  "SortOrderEnum = map_of [(''asc'', asc), (''desc'', desc)]"

text \<open>
  \<^verbatim>\<open>z.number().int().positive()\<close>, with \<^verbatim>\<open>.max(m)\<close> when \<open>m\<close> is given: NaN is no
  number; every check that fails raises its issue.
\<close>

fun is_integer :: "jsnum \<Rightarrow> bool" where
  "is_integer (Finite r) = (of_int \<lfloor>r\<rfloor> = r)"
| "is_integer x = False"

fun js_le :: "jsnum \<Rightarrow> rat \<Rightarrow> bool" where
  "js_le (Finite r) b = (r \<le> b)"
| "js_le (Infinity p) b = (\<not> p)"
| "js_le NaN b = False"

fun to_nat :: "jsnum \<Rightarrow> nat" where
  "to_nat (Finite r) = nat \<lfloor>r\<rfloor>"
| "to_nat x = 0"

definition z_number_int_positive :: "rat option \<Rightarrow> string \<Rightarrow> jsnum \<Rightarrow> nat parsed" where
  "z_number_int_positive m key x =
     (if x = NaN then Inl [ZodIssue invalid_type key]
      else
        (let issues =
               (if is_integer x then [] else [ZodIssue invalid_type key])
             @ (if js_le x 0 then [ZodIssue too_small key] else [])
             @ (case m of
                  None \<Rightarrow> []
                | Some b \<Rightarrow> if js_le x b then [] else [ZodIssue too_big key])
         in if issues = [] then Inr (to_nat x) else Inl issues))"

text \<open>\<^verbatim>\<open>z.string().transform(Number).pipe(n)\<close>\<close>

definition z_string_number :: "(string \<Rightarrow> jsnum \<Rightarrow> nat parsed) \<Rightarrow> string \<Rightarrow> query_value \<Rightarrow> nat parsed" where
  "z_string_number n key v =
     (case z_string key v of
        Inl issues \<Rightarrow> Inl issues
      | Inr s \<Rightarrow> n key (Number s))"

text \<open>Two keys of an object schema: both are parsed, and the issues add up.\<close>

fun both :: "'a parsed \<Rightarrow> 'b parsed \<Rightarrow> ('a \<times> 'b) parsed" where
  "both (Inr a) (Inr b) = Inr (a, b)"
| "both (Inl i) (Inr b) = Inl i"
| "both (Inr a) (Inl j) = Inl j"
| "both (Inl i) (Inl j) = Inl (i @ j)"

record RawQuery =
  raw_search :: "query_value option"
  raw_stage :: "query_value option"
  raw_status :: "query_value option"
  raw_source :: "query_value option"
  raw_country :: "query_value option"
  raw_sortBy :: "query_value option"
  raw_sortOrder :: "query_value option"
  raw_page :: "query_value option"
  raw_limit :: "query_value option"

text \<open>The \<^verbatim>\<open>page\<close> and \<^verbatim>\<open>limit\<close> keys of \<^verbatim>\<open>leadQuerySchema\<close>.\<close>

definition page_schema :: "query_value option \<Rightarrow> nat parsed" where
  "page_schema =
     z_optional_default (z_string_number (z_number_int_positive None) ''page'')
       (QString ''1'')"

definition limit_schema :: "query_value option \<Rightarrow> nat parsed" where
  "limit_schema =
     z_optional_default (z_string_number (z_number_int_positive (Some 100)) ''limit'')
       (QString ''10'')"

definition leadQuerySchema :: "RawQuery \<Rightarrow> LeadQueryInput parsed" where
  "leadQuerySchema raw =
     map_sum id
       (\<lambda>(search, stage, status, source, country, sortBy, sortOrder, page, limit).
          \<lparr>q_search = search, q_stage = stage, q_status = status, q_source = source,
           q_country = country, q_sortBy = sortBy, q_sortOrder = sortOrder,
           q_page = page, q_limit = limit\<rparr>)
       (both (z_optional (z_string ''search'') (raw_search raw))
       (both (z_optional (z_enum LeadStageEnum ''stage'') (raw_stage raw))
       (both (z_optional (z_enum LeadStatusEnum ''status'') (raw_status raw))
       (both (z_optional (z_string ''source'') (raw_source raw))
       (both (z_optional (z_string ''country'') (raw_country raw))
       (both (z_optional_default (z_string ''sortBy'') (QString ''createdAt'')
                (raw_sortBy raw))
       (both (z_optional_default (z_enum SortOrderEnum ''sortOrder'') (QString ''desc'')
                (raw_sortOrder raw))
       (both (page_schema (raw_page raw)) (limit_schema (raw_limit raw))))))))))"

text \<open>\<^verbatim>\<open>z.string().regex(/^[a-f\d]{24}$/i)\<close> on the path parameter, which is always
  a string.\<close>

definition leadIdSchema :: "string \<Rightarrow> string parsed" where
  "leadIdSchema ident =
     (if length ident = 24 \<and> list_all is_hex_digit ident then Inr ident
      else Inl [ZodIssue invalid_string ''id''])"

section \<open>The specification's filter, in its own words\<close>

text \<open>
  A case-insensitive substring match, the search disjunction over the five
  searched fields, and the filter as the specification composes it: the search
  disjunction when \<^verbatim>\<open>search\<close> is present, and every equality filter that is present.
\<close>

definition contains_ignoring_case :: "string \<Rightarrow> string \<Rightarrow> bool" where
  "contains_ignoring_case s sub \<longleftrightarrow>
     (\<exists>before after. map lower s = before @ map lower sub @ after)"

definition search_disjunction :: "string \<Rightarrow> Lead \<Rightarrow> bool" where
  "search_disjunction t l \<longleftrightarrow>
     contains_ignoring_case (firstName l) t \<or> contains_ignoring_case (lastName l) t \<or>
     contains_ignoring_case (email l) t \<or> contains_ignoring_case (company l) t \<or>
     contains_ignoring_case (phone l) t"

definition specified_filter :: "LeadQueryInput \<Rightarrow> Lead \<Rightarrow> bool" where
  "specified_filter q l \<longleftrightarrow>
     (\<forall>t. q_search q = Some t \<longrightarrow> search_disjunction t l) \<and>
     (\<forall>v. q_stage q = Some v \<longrightarrow> stage l = v) \<and>
     (\<forall>v. q_status q = Some v \<longrightarrow> status l = v) \<and>
     (\<forall>v. q_source q = Some v \<longrightarrow> source l = v) \<and>
     (\<forall>v. q_country q = Some v \<longrightarrow> country l = v)"

section \<open>Sample data\<close>

text \<open>Three leads as the seed script shapes them, a query with every default, and
  the request without parameters.\<close>

definition lead_A :: Lead where
  "lead_A =
     \<lparr>lead_id = ''507f1f77bcf86cd799439011'', firstName = ''John'', lastName = ''Smith'',
      email = ''john.smith1@example.com'', phone = ''+1-200-100-1000'',
      company = ''TechCorp'', position = ''CEO'', stage = NEW, status = ACTIVE,
      source = ''Website'', lead_value = 5000, lead_notes = None,
      assignedTo = Some ''Demo User'', country = ''Canada'', city = ''Toronto'',
      createdAt = 1000, updatedAt = 1000\<rparr>"

definition lead_B :: Lead where
  "lead_B =
     \<lparr>lead_id = ''507f1f77bcf86cd799439012'', firstName = ''Emma'', lastName = ''Jones'',
      email = ''emma.jones2@example.com'', phone = ''+1-300-200-2000'',
      company = ''CloudNine'', position = ''CTO'', stage = CLOSED_WON, status = CONVERTED,
      source = ''Referral'', lead_value = 7000, lead_notes = Some ''Interested'',
      assignedTo = None, country = ''India'', city = ''Mumbai'',
      createdAt = 2000, updatedAt = 2000\<rparr>"

definition lead_C :: Lead where
  "lead_C =
     \<lparr>lead_id = ''507f1f77bcf86cd799439013'', firstName = ''Lucas'', lastName = ''Brown'',
      email = ''lucas.brown3@example.com'', phone = ''+1-400-300-3000'',
      company = ''DataSystems'', position = ''CFO'', stage = CLOSED_LOST, status = REJECTED,
      source = ''Website'', lead_value = 9000, lead_notes = None,
      assignedTo = None, country = ''Canada'', city = ''Toronto'',
      createdAt = 3000, updatedAt = 3000\<rparr>"

definition three_leads :: database where
  "three_leads = \<lparr>leads = [lead_A, lead_B, lead_C]\<rparr>"



definition default_query :: LeadQueryInput where
  "default_query =
     \<lparr>q_search = None, q_stage = None, q_status = None, q_source = None,
      q_country = None, q_sortBy = ''createdAt'', q_sortOrder = desc,
      q_page = 1, q_limit = 10\<rparr>"

definition no_parameters :: RawQuery where
  "no_parameters =
     \<lparr>raw_search = None, raw_stage = None, raw_status = None, raw_source = None,
      raw_country = None, raw_sortBy = None, raw_sortOrder = None,
      raw_page = None, raw_limit = None\<rparr>"

section \<open>Lemmas about the store\<close>















lemma groups_keys: "map fst (groups key ls) = remdups (map key ls)"
  by (simp add: groups_def comp_def)

lemma sum_filter_lengths:
  assumes "finite K" and "key ` set ls \<subseteq> K"
  shows "(\<Sum>k\<in>K. length (filter (\<lambda>l. key l = k) ls)) = length ls"
  using assms(2)
proof (induction ls)
  case Nil
  then show ?case by simp
next
  case (Cons x xs)
  have "(\<Sum>k\<in>K. length (filter (\<lambda>l. key l = k) (x # xs)))
      = (\<Sum>k\<in>K. (if key x = k then 1 else 0) + length (filter (\<lambda>l. key l = k) xs))"
    by (rule sum.cong) auto
  also have "\<dots> = (\<Sum>k\<in>K. (if key x = k then 1 else 0))
      + (\<Sum>k\<in>K. length (filter (\<lambda>l. key l = k) xs))"
    by (simp add: sum.distrib)
  also have "(\<Sum>k\<in>K. (if key x = k then 1 else 0 :: nat)) = 1"
    using Cons.prems assms(1) by simp
  finally show ?case using Cons by simp
qed

lemma groups_total: "sum_list (map snd (groups key ls)) = length ls"
proof -
  have "sum_list (map snd (groups key ls))
      = sum_list (map (\<lambda>k. length (filter (\<lambda>l. key l = k) ls)) (remdups (map key ls)))"
    by (simp add: groups_def comp_def)
  also have "\<dots> = (\<Sum>k\<in>set (map key ls). length (filter (\<lambda>l. key l = k) ls))"
    by (simp add: sum_list_distinct_conv_sum_set)
  also have "\<dots> = length ls"
    by (rule sum_filter_lengths) auto
  finally show ?thesis .
qed

lemma update_fresh: "k \<notin> fst ` set al \<Longrightarrow> AList.update k v al = al @ [(k, v)]"
  by (induction al) auto

lemma fold_update_distinct:
  "distinct (map fst (acc @ raw)) \<Longrightarrow>
   fold (\<lambda>item acc. AList.update (fst item) (snd item) acc) raw acc = acc @ raw"
proof (induction raw arbitrary: acc)
  case Nil
  then show ?case by simp
next
  case (Cons item raw)
  from Cons.prems have fresh: "fst item \<notin> fst ` set acc" by auto
  from Cons.prems have "distinct (map fst ((acc @ [item]) @ raw))" by simp
  from Cons.IH [OF this] fresh show ?case by (simp add: update_fresh)
qed

lemma collect_groups: "collect (groups key ls) = groups key ls"
  using fold_update_distinct [of "[]" "groups key ls"]
  by (simp add: collect_def groups_keys)

lemma where_empty_holds: "where_holds where_empty = (\<lambda>l. True)"
  by (simp add: where_holds_def where_empty_def fun_eq_iff)

lemma where_status_holds:
  "where_holds (where_empty\<lparr>where_status := Some s\<rparr>) = (\<lambda>l. status l = s)"
  by (simp add: where_holds_def where_empty_def fun_eq_iff)

lemma lead_deleteMany_clears: "leads (snd (lead_deleteMany db)) = []"
  by (simp add: lead_deleteMany_def resolve_def)

lemma find_unique:
  assumes "distinct (map key xs)" and "x \<in> set xs"
  shows "find (\<lambda>y. key y = key x) xs = Some x"
  using assms
proof (induction xs)
  case Nil
  then show ?case by simp
next
  case (Cons y ys)
  then show ?case by (cases "key y = key x") (auto simp: image_iff)
qed

section \<open>What each handler computes\<close>

lemma getLeads_run:
  "getLeads q db =
     (case field_of_name (q_sortBy q) of
        None \<Rightarrow> (Inl (HttpError 500 ''Internal server error''), db)
      | Some f \<Rightarrow>
          (Inr \<lparr>data = take (q_limit q) (drop ((q_page q - 1) * q_limit q)
                         (ordered f (q_sortOrder q) (getLeads_where q) db)),
                pagination =
                  \<lparr>pg_total = length (matching (getLeads_where q) db),
                   pg_page = q_page q, pg_limit = q_limit q,
                   pg_totalPages =
                     Math_ceil (js_div (length (matching (getLeads_where q) db))
                                  (q_limit q))\<rparr>\<rparr>, db))"
  by (simp add: getLeads_def try_catch_def await_def lead_count_def lead_findMany_def
      resolve_def reject_def res_json_def Let_def split: option.split)

lemma getLeadById_run:
  "is_ObjectId ident \<Longrightarrow>
   getLeadById ident db =
     (case find (\<lambda>l. ObjectId (lead_id l) = ObjectId ident) (leads db) of
        None \<Rightarrow> (Inl (HttpError 404 ''Lead not found''), db)
      | Some l \<Rightarrow> (Inr l, db))"
  by (simp add: getLeadById_def try_catch_def await_def lead_findUnique_def resolve_def
      res_json_def res_status_json_def split: option.split)

lemma getAnalytics_run:
  "getAnalytics db =
     (Inr \<lparr>totalLeads = length (leads db),
           convertedLeads = length (filter (\<lambda>l. status l = CONVERTED) (leads db)),
           activeLeads = length (filter (\<lambda>l. status l = ACTIVE) (leads db)),
           totalValue =
             (if leads db = [] then 0
              else or_zero (Some (sum_list (map lead_value (leads db))))),
           averageValue =
             (if leads db = [] then 0
              else or_zero (Some (sum_list (map lead_value (leads db))
                                  / of_nat (length (leads db))))),
           leadsByStage = groups stage (leads db),
           leadsByStatus = groups status (leads db),
           leadsBySource =
             map (\<lambda>item. \<lparr>sc_source = fst item, sc_count = snd item\<rparr>)
               (take 10 (sort_by (\<lambda>a b. snd b \<le> snd a) (groups source (leads db))))\<rparr>,
      db)"
  by (simp add: getAnalytics_def try_catch_def await_def lead_count_def matching_def
      resolve_def res_json_def lead_aggregate_value_def lead_groupBy_def
      lead_groupBy_top_def collect_groups where_empty_holds where_status_holds)

section \<open>Lemmas about the filter\<close>

lemma starts_with_iff: "starts_with s p \<longleftrightarrow> (\<exists>after. s = p @ after)"
  by (induction s p rule: starts_with.induct) auto

lemma has_substring_iff: "has_substring s sub \<longleftrightarrow> (\<exists>before after. s = before @ sub @ after)"
proof (induction s)
  case Nil
  then show ?case by auto
next
  case (Cons c cs)
  show ?case
  proof
    assume "has_substring (c # cs) sub"
    then consider "starts_with (c # cs) sub" | "has_substring cs sub" by auto
    then show "\<exists>before after. c # cs = before @ sub @ after"
    proof cases
      case 1
      then obtain after where "c # cs = sub @ after" by (auto simp: starts_with_iff)
      then have "c # cs = [] @ sub @ after" by simp
      then show ?thesis by blast
    next
      case 2
      with Cons obtain before after where "cs = before @ sub @ after" by blast
      then have "c # cs = (c # before) @ sub @ after" by simp
      then show ?thesis by blast
    qed
  next
    assume "\<exists>before after. c # cs = before @ sub @ after"
    then obtain before after where e: "c # cs = before @ sub @ after" by blast
    show "has_substring (c # cs) sub"
    proof (cases before)
      case Nil
      with e have "starts_with (c # cs) sub" by (auto simp: starts_with_iff)
      then show ?thesis by simp
    next
      case (Cons b bs)
      with e have "cs = bs @ sub @ after" by simp
      with Cons.IH have "has_substring cs sub" by blast
      then show ?thesis by simp
    qed
  qed
qed

lemma LeadStage_name_nonempty: "LeadStage_name v \<noteq> []"
  by (cases v) simp_all

lemma LeadStatus_name_nonempty: "LeadStatus_name v \<noteq> []"
  by (cases v) simp_all

lemma search_holds:
  "OR_holds (Some (search_conditions t)) l \<longleftrightarrow> search_disjunction t l"
  by (simp add: search_conditions_def search_disjunction_def contains_ignoring_case_def
      has_substring_iff)

lemma contains_empty: "contains_ignoring_case s []"
  unfolding contains_ignoring_case_def
  by (intro exI [of _ "[]"] exI [of _ "map lower s"]) simp

lemma getLeads_where_holds:
  "where_holds (getLeads_where q) l \<longleftrightarrow>
     (\<forall>t. q_search q = Some t \<longrightarrow> search_disjunction t l) \<and>
     (\<forall>v. q_stage q = Some v \<longrightarrow> stage l = v) \<and>
     (\<forall>v. q_status q = Some v \<longrightarrow> status l = v) \<and>
     (\<forall>v. q_source q = Some v \<and> v \<noteq> [] \<longrightarrow> source l = v) \<and>
     (\<forall>v. q_country q = Some v \<and> v \<noteq> [] \<longrightarrow> country l = v)"
proof -
  have a: "OR_holds (where_OR (getLeads_where q)) l
      \<longleftrightarrow> (\<forall>t. q_search q = Some t \<longrightarrow> search_disjunction t l)"
  proof (cases "q_search q")
    case None
    then show ?thesis by (simp add: getLeads_where_def)
  next
    case (Some t)
    show ?thesis
    proof (cases "t = []")
      case True
      with Some show ?thesis
        by (simp add: getLeads_where_def search_disjunction_def contains_empty)
    next
      case False
      with Some have "where_OR (getLeads_where q) = Some (search_conditions t)"
        by (simp add: getLeads_where_def)
      with Some show ?thesis
        by (simp add: search_holds del: OR_holds.simps)
    qed
  qed
  have b: "equals_opt (where_stage (getLeads_where q)) (stage l)
      \<longleftrightarrow> (\<forall>v. q_stage q = Some v \<longrightarrow> stage l = v)"
    by (cases "q_stage q") (auto simp: getLeads_where_def LeadStage_name_nonempty)
  have c: "equals_opt (where_status (getLeads_where q)) (status l)
      \<longleftrightarrow> (\<forall>v. q_status q = Some v \<longrightarrow> status l = v)"
    by (cases "q_status q") (auto simp: getLeads_where_def LeadStatus_name_nonempty)
  have d: "equals_opt (where_source (getLeads_where q)) (source l)
      \<longleftrightarrow> (\<forall>v. q_source q = Some v \<and> v \<noteq> [] \<longrightarrow> source l = v)"
    by (cases "q_source q") (auto simp: getLeads_where_def)
  have e: "equals_opt (where_country (getLeads_where q)) (country l)
      \<longleftrightarrow> (\<forall>v. q_country q = Some v \<and> v \<noteq> [] \<longrightarrow> country l = v)"
    by (cases "q_country q") (auto simp: getLeads_where_def)
  show ?thesis
    unfolding where_holds_def a b c d e ..
qed

section \<open>Lemmas about the schemas\<close>

lemma lower_hex: "lower c \<in> set ''abcdef'' \<longleftrightarrow> c \<in> set ''abcdefABCDEF''"
  by (auto simp: lower_def split: if_splits)

lemma is_hex_digit_iff: "is_hex_digit c \<longleftrightarrow> c \<in> set ''0123456789abcdefABCDEF''"
  unfolding is_hex_digit_def is_digit_def lower_hex by auto

lemma hex_string_iff:
  "list_all is_hex_digit s \<longleftrightarrow> set s \<subseteq> set ''0123456789abcdefABCDEF''"
  unfolding list_all_iff is_hex_digit_iff by blast

lemma leadIdSchema_accepts:
  "leadIdSchema ident = Inr i \<longleftrightarrow>
     i = ident \<and> length ident = 24 \<and> set ident \<subseteq> set ''0123456789abcdefABCDEF''"
  unfolding leadIdSchema_def hex_string_iff [symmetric] by auto

lemma leadIdSchema_rejects:
  "\<not> (length ident = 24 \<and> set ident \<subseteq> set ''0123456789abcdefABCDEF'') \<Longrightarrow>
   leadIdSchema ident = Inl [ZodIssue invalid_string ''id'']"
  unfolding leadIdSchema_def hex_string_iff [symmetric] by auto

lemma schema_is_ObjectId: "leadIdSchema ident = Inr i \<Longrightarrow> is_ObjectId ident"
  by (auto simp: leadIdSchema_def is_ObjectId_def split: if_splits)













lemma ceiling_div_zero_iff:
  fixes t n :: nat
  assumes "1 \<le> n"
  shows "\<lceil>(of_nat t :: rat) / of_nat n\<rceil> = 0 \<longleftrightarrow> t = 0"
proof
  assume "\<lceil>(of_nat t :: rat) / of_nat n\<rceil> = 0"
  then have "\<lceil>(of_nat t :: rat) / of_nat n\<rceil> \<le> 0" by simp
  then have "(of_nat t :: rat) / of_nat n \<le> 0" by (simp only: ceiling_le_zero)
  with assms show "t = 0" by (simp add: divide_le_0_iff)
next
  assume "t = 0" then show "\<lceil>(of_nat t :: rat) / of_nat n\<rceil> = 0" by simp
qed

section \<open>The list query\<close>

text \<open>
  Claim C1, as the code has it. A lead is among the records the list query selects
  if and only if it is in the collection, satisfies the search disjunction when
  \<^verbatim>\<open>search\<close> is present (a case-insensitive substring match in one of firstName,
  lastName, email, company, phone), equals every present \<^verbatim>\<open>stage\<close> and \<^verbatim>\<open>status\<close>,
  and equals every \<^verbatim>\<open>source\<close> and \<^verbatim>\<open>country\<close> that is present and not the empty
  string. The selected records are what \<open>getLeads\<close> counts and pages through.
\<close>

theorem getLeads_filter:
  "l \<in> set (matching (getLeads_where q) db) \<longleftrightarrow>
     l \<in> set (leads db) \<and>
     (\<forall>t. q_search q = Some t \<longrightarrow> search_disjunction t l) \<and>
     (\<forall>v. q_stage q = Some v \<longrightarrow> stage l = v) \<and>
     (\<forall>v. q_status q = Some v \<longrightarrow> status l = v) \<and>
     (\<forall>v. q_source q = Some v \<and> v \<noteq> [] \<longrightarrow> source l = v) \<and>
     (\<forall>v. q_country q = Some v \<and> v \<noteq> [] \<longrightarrow> country l = v)"
  by (simp add: matching_def getLeads_where_holds)

text \<open>The filter at a query with a search term, a stage, an empty source and a
  country: the first sample lead is selected, the third is not.\<close>

theorem getLeads_filter_witness:
  "lead_A \<in> set (matching
       (getLeads_where
          (default_query\<lparr>q_search := Some ''JOHN'', q_stage := Some NEW,
             q_source := Some '''', q_country := Some ''Canada''\<rparr>)) three_leads)
   \<and> search_disjunction ''JOHN'' lead_A \<and> stage lead_A = NEW \<and> country lead_A = ''Canada''
   \<and> lead_C \<notin> set (matching
       (getLeads_where
          (default_query\<lparr>q_search := Some ''JOHN'', q_stage := Some NEW,
             q_source := Some '''', q_country := Some ''Canada''\<rparr>)) three_leads)"
proof -
  let ?q = "default_query\<lparr>q_search := Some ''JOHN'', q_stage := Some NEW,
             q_source := Some '''', q_country := Some ''Canada''\<rparr>"
  have a: "lead_A \<in> set (matching (getLeads_where ?q) three_leads)"
    by code_simp
  have c: "stage lead_C \<noteq> NEW"
    by (simp add: lead_C_def)
  from a getLeads_filter [of lead_A ?q three_leads]
  have "search_disjunction ''JOHN'' lead_A \<and> stage lead_A = NEW \<and> country lead_A = ''Canada''"
    by simp
  moreover from c getLeads_filter [of lead_C ?q three_leads]
  have "lead_C \<notin> set (matching (getLeads_where ?q) three_leads)"
    by simp
  ultimately show ?thesis using a by blast
qed

text \<open>
  Claim C1 as the specification words it fails for \<^verbatim>\<open>?source=\<close>: the schema accepts
  the empty string, the handler then sets no \<^verbatim>\<open>source\<close> condition and returns all
  three sample leads, while the specified filter admits only leads whose source is
  the empty string.
\<close>

theorem specified_filter_counterexample:
  "leadQuerySchema (no_parameters\<lparr>raw_source := Some (QString '''')\<rparr>)
     = Inr (default_query\<lparr>q_source := Some ''''\<rparr>)
   \<and> fst (getLeads (default_query\<lparr>q_source := Some ''''\<rparr>) three_leads)
     = Inr \<lparr>data = [lead_C, lead_B, lead_A],
            pagination = \<lparr>pg_total = 3, pg_page = 1, pg_limit = 10, pg_totalPages = Finite 1\<rparr>\<rparr>
   \<and> lead_A \<in> set (matching (getLeads_where (default_query\<lparr>q_source := Some ''''\<rparr>)) three_leads)
   \<and> \<not> specified_filter (default_query\<lparr>q_source := Some ''''\<rparr>) lead_A"
proof -
  have "leadQuerySchema (no_parameters\<lparr>raw_source := Some (QString '''')\<rparr>)
     = Inr (default_query\<lparr>q_source := Some ''''\<rparr>)"
    by code_simp
  moreover have "fst (getLeads (default_query\<lparr>q_source := Some ''''\<rparr>) three_leads)
     = Inr \<lparr>data = [lead_C, lead_B, lead_A],
            pagination = \<lparr>pg_total = 3, pg_page = 1, pg_limit = 10, pg_totalPages = Finite 1\<rparr>\<rparr>"
    by code_simp
  moreover have "lead_A \<in> set (matching (getLeads_where (default_query\<lparr>q_source := Some ''''\<rparr>)) three_leads)"
    by code_simp
  moreover have "\<not> specified_filter (default_query\<lparr>q_source := Some ''''\<rparr>) lead_A"
    by (simp add: specified_filter_def default_query_def lead_A_def)
  ultimately show ?thesis by blast
qed



text \<open>
  Claim C3. In a successful answer of the list query, \<open>total\<close> is the number of
  selected records, whatever the page and limit; \<open>totalPages\<close> is the ceiling of
  \<open>total / limit\<close>; and \<open>totalPages\<close> is 0 exactly when \<open>total\<close> is.
\<close>

theorem getLeads_pagination:
  assumes "fst (getLeads q db) = Inr r" and "1 \<le> q_limit q"
  shows "pg_total (pagination r) = length (matching (getLeads_where q) db)
     \<and> (\<forall>p n r'. fst (getLeads (q\<lparr>q_page := p, q_limit := n\<rparr>) db) = Inr r'
            \<longrightarrow> pg_total (pagination r') = pg_total (pagination r))
     \<and> pg_limit (pagination r) = q_limit q
     \<and> pg_totalPages (pagination r)
         = Finite (of_int \<lceil>(of_nat (pg_total (pagination r)) :: rat)
                              / of_nat (pg_limit (pagination r))\<rceil>)
     \<and> (pg_totalPages (pagination r) = Finite 0 \<longleftrightarrow> pg_total (pagination r) = 0)"
proof (cases "field_of_name (q_sortBy q)")
  case None
  with assms show ?thesis by (simp add: getLeads_run)
next
  case (Some f)
  have w: "getLeads_where (q\<lparr>q_page := p, q_limit := n\<rparr>) = getLeads_where q" for p n
    by (simp add: getLeads_where_def)
  from Some assms(1) have t: "pg_total (pagination r) = length (matching (getLeads_where q) db)"
    and l: "pg_limit (pagination r) = q_limit q"
    and c: "pg_totalPages (pagination r)
         = Math_ceil (js_div (length (matching (getLeads_where q) db)) (q_limit q))"
    by (auto simp: getLeads_run)
  have a: "\<forall>p n r'. fst (getLeads (q\<lparr>q_page := p, q_limit := n\<rparr>) db) = Inr r'
            \<longrightarrow> pg_total (pagination r') = pg_total (pagination r)"
    using Some by (auto simp: getLeads_run w t)
  from assms(2) have n: "q_limit q \<noteq> 0" by simp
  show ?thesis using a n assms(2)
    by (simp add: t l c js_div_def ceiling_div_zero_iff)
qed

text \<open>The three sample leads in pages of one: total 3, three pages; a stage no
  lead has: total 0, no page.\<close>

theorem getLeads_pagination_witness:
  "length (matching (getLeads_where (default_query\<lparr>q_page := 2, q_limit := 1\<rparr>)) three_leads) = 3
   \<and> fst (getLeads (default_query\<lparr>q_page := 2, q_limit := 1\<rparr>) three_leads)
     = Inr \<lparr>data = [lead_B],
            pagination = \<lparr>pg_total = 3, pg_page = 2, pg_limit = 1, pg_totalPages = Finite 3\<rparr>\<rparr>
   \<and> fst (getLeads (default_query\<lparr>q_stage := Some QUALIFIED\<rparr>) three_leads)
     = Inr \<lparr>data = [],
            pagination = \<lparr>pg_total = 0, pg_page = 1, pg_limit = 10, pg_totalPages = Finite 0\<rparr>\<rparr>"
proof -
  let ?q = "default_query\<lparr>q_page := 2, q_limit := 1\<rparr>"
  let ?r = "\<lparr>data = [lead_B],
       pagination = \<lparr>pg_total = 3, pg_page = 2, pg_limit = 1, pg_totalPages = Finite 3\<rparr>\<rparr>"
  have r: "fst (getLeads ?q three_leads) = Inr ?r"
    by code_simp
  have l: "1 \<le> q_limit ?q"
    by (simp add: default_query_def)
  have z: "fst (getLeads (default_query\<lparr>q_stage := Some QUALIFIED\<rparr>) three_leads)
     = Inr \<lparr>data = [],
            pagination = \<lparr>pg_total = 0, pg_page = 1, pg_limit = 10, pg_totalPages = Finite 0\<rparr>\<rparr>"
    by code_simp
  from getLeads_pagination [OF r l]
  have "length (matching (getLeads_where ?q) three_leads) = 3"
    by simp
  with r z show ?thesis by blast
qed

text \<open>
  Claim C10. An empty string for \<^verbatim>\<open>search\<close>, \<^verbatim>\<open>source\<close> or \<^verbatim>\<open>country\<close>, which the
  schema lets through as it is, adds no condition: the list query answers as it
  does when the parameter is absent.
\<close>

theorem getLeads_empty_string:
  "z_optional (z_string key) (Some (QString '''')) = Inr (Some '''')
   \<and> getLeads (q\<lparr>q_search := Some ''''\<rparr>) db = getLeads (q\<lparr>q_search := None\<rparr>) db
   \<and> getLeads (q\<lparr>q_source := Some ''''\<rparr>) db = getLeads (q\<lparr>q_source := None\<rparr>) db
   \<and> getLeads (q\<lparr>q_country := Some ''''\<rparr>) db = getLeads (q\<lparr>q_country := None\<rparr>) db"
  by (simp add: getLeads_def getLeads_where_def)

section \<open>Validation\<close>



section \<open>The single-record lookup\<close>

text \<open>
  Claim C7. The id schema accepts exactly the strings of 24 hexadecimal digits of
  either case and refuses every other string with an issue on \<^verbatim>\<open>id\<close>. For an
  accepted id and a collection whose identifiers are distinct, the lookup answers
  with the one record that has this identifier, and with 404 \<^verbatim>\<open>Lead not found\<close> when
  no record has it.
\<close>

theorem getLeadById_lookup:
  "(leadIdSchema ident = Inr i \<longleftrightarrow>
      i = ident \<and> length ident = 24 \<and> set ident \<subseteq> set ''0123456789abcdefABCDEF'')
   \<and> (\<not> (length ident = 24 \<and> set ident \<subseteq> set ''0123456789abcdefABCDEF'') \<longrightarrow>
        leadIdSchema ident = Inl [ZodIssue invalid_string ''id''])
   \<and> (leadIdSchema ident = Inr ident
        \<and> distinct (map (\<lambda>l. ObjectId (lead_id l)) (leads db)) \<longrightarrow>
        (\<forall>l \<in> set (leads db). ObjectId (lead_id l) = ObjectId ident \<longrightarrow>
             getLeadById ident db = (Inr l, db))
        \<and> ((\<forall>l \<in> set (leads db). ObjectId (lead_id l) \<noteq> ObjectId ident) \<longrightarrow>
             getLeadById ident db = (Inl (HttpError 404 ''Lead not found''), db)))"
proof (intro conjI impI ballI)
  show "leadIdSchema ident = Inr i \<longleftrightarrow>
      i = ident \<and> length ident = 24 \<and> set ident \<subseteq> set ''0123456789abcdefABCDEF''"
    by (rule leadIdSchema_accepts)
next
  assume "\<not> (length ident = 24 \<and> set ident \<subseteq> set ''0123456789abcdefABCDEF'')"
  then show "leadIdSchema ident = Inl [ZodIssue invalid_string ''id'']"
    by (rule leadIdSchema_rejects)
next
  fix l
  assume a: "leadIdSchema ident = Inr ident
      \<and> distinct (map (\<lambda>l. ObjectId (lead_id l)) (leads db))"
    and l: "l \<in> set (leads db)" and k: "ObjectId (lead_id l) = ObjectId ident"
  from a have o: "is_ObjectId ident" by (blast dest: schema_is_ObjectId)
  from a l have "find (\<lambda>y. ObjectId (lead_id y) = ObjectId (lead_id l)) (leads db) = Some l"
    by (intro find_unique) auto
  with k o show "getLeadById ident db = (Inr l, db)"
    by (simp add: getLeadById_run)
next
  assume a: "leadIdSchema ident = Inr ident
      \<and> distinct (map (\<lambda>l. ObjectId (lead_id l)) (leads db))"
    and n: "\<forall>l \<in> set (leads db). ObjectId (lead_id l) \<noteq> ObjectId ident"
  from a have o: "is_ObjectId ident" by (blast dest: schema_is_ObjectId)
  from n have "find (\<lambda>y. ObjectId (lead_id y) = ObjectId ident) (leads db) = None"
    by (simp add: find_None_iff)
  with o show "getLeadById ident db = (Inl (HttpError 404 ''Lead not found''), db)"
    by (simp add: getLeadById_run)
qed

text \<open>The second sample lead is found under its identifier in capitals; an
  identifier no lead has is answered 404; a string that is no identifier is
  refused.\<close>

theorem getLeadById_lookup_witness:
  "leadIdSchema ''507F1F77BCF86CD799439012'' = Inr ''507F1F77BCF86CD799439012''
   \<and> getLeadById ''507F1F77BCF86CD799439012'' three_leads = (Inr lead_B, three_leads)
   \<and> leadIdSchema ''507f1f77bcf86cd799439099'' = Inr ''507f1f77bcf86cd799439099''
   \<and> getLeadById ''507f1f77bcf86cd799439099'' three_leads
       = (Inl (HttpError 404 ''Lead not found''), three_leads)
   \<and> leadIdSchema ''analytics-report'' = Inl [ZodIssue invalid_string ''id'']"
proof -
  let ?b = "''507F1F77BCF86CD799439012''"
  let ?n = "''507f1f77bcf86cd799439099''"
  have s: "leadIdSchema ?b = Inr ?b" "leadIdSchema ?n = Inr ?n"
    by code_simp+
  have d: "distinct (map (\<lambda>l. ObjectId (lead_id l)) (leads three_leads))"
    by code_simp
  have m: "lead_B \<in> set (leads three_leads)" "ObjectId (lead_id lead_B) = ObjectId ?b"
    by code_simp+
  have a: "\<forall>l \<in> set (leads three_leads). ObjectId (lead_id l) \<noteq> ObjectId ?n"
    by code_simp
  have r: "\<not> (length ''analytics-report'' = 24
      \<and> set ''analytics-report'' \<subseteq> set ''0123456789abcdefABCDEF'')"
    by simp
  from getLeadById_lookup [of ?b ?b three_leads] s(1) d m
  have "getLeadById ?b three_leads = (Inr lead_B, three_leads)"
    by blast
  moreover from getLeadById_lookup [of ?n ?n three_leads] s(2) d a
  have "getLeadById ?n three_leads = (Inl (HttpError 404 ''Lead not found''), three_leads)"
    by blast
  moreover from getLeadById_lookup [of "''analytics-report''" "[]" three_leads] r
  have "leadIdSchema ''analytics-report'' = Inl [ZodIssue invalid_string ''id'']"
    by blast
  ultimately show ?thesis using s by blast
qed

section \<open>Analytics\<close>

text \<open>
  Claim C4. Analytics always answers; \<open>averageValue\<close> is \<open>totalValue\<close> divided by
  \<open>totalLeads\<close> when there is a lead, and both are 0 when there is none: the mean
  comes from the store's aggregate, which is null over an empty collection, and the
  handler turns null into 0 without dividing.
\<close>

theorem getAnalytics_average:
  "\<exists>a. getAnalytics db = (Inr a, db)
     \<and> totalLeads a = length (leads db)
     \<and> totalValue a = sum_list (map lead_value (leads db))
     \<and> (0 < totalLeads a \<longrightarrow> averageValue a = totalValue a / of_nat (totalLeads a))
     \<and> (totalLeads a = 0 \<longrightarrow> averageValue a = 0 \<and> totalValue a = 0)"
  by (simp add: getAnalytics_run)

text \<open>Three leads worth 5000, 7000 and 9000 have the mean 7000; the empty
  collection has total and mean 0.\<close>

theorem getAnalytics_average_witness:
  "(\<exists>a. getAnalytics three_leads = (Inr a, three_leads)
       \<and> totalLeads a = 3 \<and> totalValue a = 21000 \<and> averageValue a = 7000)
   \<and> (\<exists>a. getAnalytics \<lparr>leads = []\<rparr> = (Inr a, \<lparr>leads = []\<rparr>)
       \<and> totalLeads a = 0 \<and> totalValue a = 0 \<and> averageValue a = 0)"
proof -
  have n: "length (leads three_leads) = 3"
    and v: "sum_list (map lead_value (leads three_leads)) = 21000"
    by code_simp+
  from getAnalytics_average [of three_leads] n v
  have "\<exists>a. getAnalytics three_leads = (Inr a, three_leads)
       \<and> totalLeads a = 3 \<and> totalValue a = 21000 \<and> averageValue a = 7000"
    by auto
  moreover from getAnalytics_average [of "\<lparr>leads = []\<rparr>"]
  have "\<exists>a. getAnalytics \<lparr>leads = []\<rparr> = (Inr a, \<lparr>leads = []\<rparr>)
       \<and> totalLeads a = 0 \<and> totalValue a = 0 \<and> averageValue a = 0"
    by auto
  ultimately show ?thesis by blast
qed

text \<open>
  Claim C8. The counts in \<open>leadsByStatus\<close> add up to \<open>totalLeads\<close>: every
  sub-query of the handler reads the collection the previous one left, and none
  changes it.
\<close>

theorem getAnalytics_status_sum:
  "\<exists>a. getAnalytics db = (Inr a, db)
     \<and> totalLeads a = length (leads db)
     \<and> sum_list (map snd (leadsByStatus a)) = totalLeads a"
  by (simp add: getAnalytics_run groups_total)




section \<open>Frame\<close>

text \<open>
  Claim C9. The list query, the single-record lookup and analytics leave the
  database as they found it, for every input and every database, also when they
  answer with an error.
\<close>

theorem handlers_read_only:
  "snd (getLeads q db) = db \<and> snd (getLeadById ident db) = db \<and> snd (getAnalytics db) = db"
  by (simp add: getLeads_def getLeadById_def getAnalytics_def try_catch_def await_def
      lead_count_def lead_findMany_def lead_findUnique_def lead_aggregate_value_def
      lead_groupBy_def lead_groupBy_top_def resolve_def reject_def res_json_def
      res_status_json_def Let_def split: option.split)

end
